theory Spec2Isabelle
  imports Main
begin

section \<open>Python values, exceptions and the operations the server applies to them\<close>

text \<open>
  The server is glue code around two library calls, so what it computes is decided by
  Python's dynamic typing: truthiness tests, \<^verbatim>\<open>in\<close>, subscripts, \<^verbatim>\<open>len\<close>,
  \<^verbatim>\<open>dict.get\<close> and f-string formatting on values typed \<^verbatim>\<open>Any\<close>.
  The values that can reach those operations are modelled by \<open>pyval\<close>. A \<^verbatim>\<open>str\<close> is
  modelled by its UTF-8 encoding (a HOL \<open>string\<close>); a \<^verbatim>\<open>dict\<close> with \<^verbatim>\<open>str\<close> keys by an
  association list read with \<open>map_of\<close>. Floats and other objects are outside the model.
\<close>

datatype pyval =
    PNone
  | PBool bool
  | PInt int
  | PStr string
  | PList "pyval list"
  | PDict "(string \<times> pyval) list"

text \<open>
  A raised exception: its class name, what \<^verbatim>\<open>str(e)\<close> gives, and its \<^verbatim>\<open>__context__\<close>,
  the exception that was being handled when it was raised (\<open>None\<close> when it was not raised
  inside an \<^verbatim>\<open>except\<close> block). Only classes derived from \<^verbatim>\<open>Exception\<close> are modelled (the
  ones \<^verbatim>\<open>except Exception\<close> catches); \<^verbatim>\<open>KeyboardInterrupt\<close> and \<^verbatim>\<open>SystemExit\<close> are
  process signals outside the model.
\<close>

datatype exception = Exc (exc_class: string) (exc_str: string) (exc_context: "exception option")

definition bind_exc :: "'e + 'a \<Rightarrow> ('a \<Rightarrow> 'e + 'b) \<Rightarrow> 'e + 'b" where
  "bind_exc m f = (case m of Inl e \<Rightarrow> Inl e | Inr v \<Rightarrow> f v)"

fun type_name :: "pyval \<Rightarrow> string" where
  "type_name PNone = ''NoneType''"
| "type_name (PBool _) = ''bool''"
| "type_name (PInt _) = ''int''"
| "type_name (PStr _) = ''str''"
| "type_name (PList _) = ''list''"
| "type_name (PDict _) = ''dict''"

text \<open>\<^verbatim>\<open>bool(v)\<close>, the test behind \<^verbatim>\<open>not v\<close> and \<^verbatim>\<open>if v:\<close>.\<close>

fun truthy :: "pyval \<Rightarrow> bool" where
  "truthy PNone = False"
| "truthy (PBool b) = b"
| "truthy (PInt i) = (i \<noteq> 0)"
| "truthy (PStr s) = (s \<noteq> [])"
| "truthy (PList xs) = (xs \<noteq> [])"
| "truthy (PDict d) = (d \<noteq> [])"

text \<open>
  Code points of a UTF-8 string: a lead byte with the continuation bytes
  (\<open>0x80\<close> to \<open>0xBF\<close>) that follow it.
\<close>

definition utf8_cont :: "char \<Rightarrow> bool" where
  "utf8_cont c = (128 \<le> (of_char c :: nat) \<and> (of_char c :: nat) < 192)"

function utf8_chars :: "string \<Rightarrow> string list" where
  "utf8_chars [] = []"
| "utf8_chars (c # cs) = (c # takeWhile utf8_cont cs) # utf8_chars (dropWhile utf8_cont cs)"
  by pat_completeness auto
termination
  by (relation "measure length") (auto simp: length_dropWhile_le less_Suc_eq_le)

text \<open>\<^verbatim>\<open>xs[i]\<close> on a sequence: a negative index counts from the end.\<close>

definition seq_index :: "'a list \<Rightarrow> int \<Rightarrow> string \<Rightarrow> exception + 'a" where
  "seq_index xs i what =
     (if i < - int (length xs) \<or> int (length xs) \<le> i
      then Inl (Exc ''IndexError'' (what @ '' index out of range'') None)
      else Inr (xs ! nat (if i < 0 then i + int (length xs) else i)))"

text \<open>\<^verbatim>\<open>k in v\<close> for a \<^verbatim>\<open>str\<close> \<open>k\<close>: key test on a dict, membership in a list,
  substring test on a \<^verbatim>\<open>str\<close>; the other types are not iterable.\<close>

definition is_substring :: "string \<Rightarrow> string \<Rightarrow> bool" where
  "is_substring k s = list_ex (\<lambda>i. take (length k) (drop i s) = k) [0 ..< Suc (length s)]"

fun py_in :: "string \<Rightarrow> pyval \<Rightarrow> exception + bool" where
  "py_in k (PDict d) = Inr (map_of d k \<noteq> None)"
| "py_in k (PList xs) = Inr (PStr k \<in> set xs)"
| "py_in k (PStr s) = Inr (is_substring k s)"
| "py_in k v = Inl (Exc ''TypeError'' (''argument of type '' @ [CHR 0x27] @ type_name v @ [CHR 0x27] @ '' is not iterable'') None)"

text \<open>\<^verbatim>\<open>v[k]\<close> for a \<^verbatim>\<open>str\<close> \<open>k\<close>. \<^verbatim>\<open>str(KeyError(k))\<close> is the key in single quotes, for
  a key free of quotes and escapes such as the one key the server uses.\<close>

fun py_getitem_str :: "pyval \<Rightarrow> string \<Rightarrow> exception + pyval" where
  "py_getitem_str (PDict d) k =
     (case map_of d k of
        None \<Rightarrow> Inl (Exc ''KeyError'' ([CHR 0x27] @ k @ [CHR 0x27]) None)
      | Some x \<Rightarrow> Inr x)"
| "py_getitem_str (PList xs) k = Inl (Exc ''TypeError'' ''list indices must be integers or slices, not str'' None)"
| "py_getitem_str (PStr s) k = Inl (Exc ''TypeError'' ''string indices must be integers'' None)"
| "py_getitem_str v k = Inl (Exc ''TypeError'' ([CHR 0x27] @ type_name v @ [CHR 0x27] @ '' object is not subscriptable'') None)"

text \<open>\<^verbatim>\<open>v[i]\<close> for an \<^verbatim>\<open>int\<close> \<open>i\<close>. The dicts of the model have \<^verbatim>\<open>str\<close> keys only, so
  an integer key is never found; the decimal rendering of the key in the message is
  left to \<open>repr\<close>.\<close>

fun py_getitem_int :: "(pyval \<Rightarrow> string) \<Rightarrow> pyval \<Rightarrow> int \<Rightarrow> exception + pyval" where
  "py_getitem_int repr (PList xs) i = seq_index xs i ''list''"
| "py_getitem_int repr (PStr s) i = map_sum id PStr (seq_index (utf8_chars s) i ''string'')"
| "py_getitem_int repr (PDict d) i = Inl (Exc ''KeyError'' (repr (PInt i)) None)"
| "py_getitem_int repr v i = Inl (Exc ''TypeError'' ([CHR 0x27] @ type_name v @ [CHR 0x27] @ '' object is not subscriptable'') None)"

text \<open>\<^verbatim>\<open>len(v)\<close>: code points of a \<^verbatim>\<open>str\<close>, elements of a list, distinct keys of a dict.\<close>

fun py_len :: "pyval \<Rightarrow> exception + nat" where
  "py_len (PList xs) = Inr (length xs)"
| "py_len (PStr s) = Inr (length (utf8_chars s))"
| "py_len (PDict d) = Inr (length (remdups (map fst d)))"
| "py_len v = Inl (Exc ''TypeError'' (''object of type '' @ [CHR 0x27] @ type_name v @ [CHR 0x27] @ '' has no len()'') None)"

text \<open>\<^verbatim>\<open>v.get(k, default)\<close>: only a dict has the method.\<close>

fun py_get :: "pyval \<Rightarrow> string \<Rightarrow> pyval \<Rightarrow> exception + pyval" where
  "py_get (PDict d) k dflt = Inr (case map_of d k of None \<Rightarrow> dflt | Some x \<Rightarrow> x)"
| "py_get v k dflt = Inl (Exc ''AttributeError'' ([CHR 0x27] @ type_name v @ [CHR 0x27] @ '' object has no attribute '' @ [CHR 0x27] @ ''get'' @ [CHR 0x27]) None)"

text \<open>
  \<^verbatim>\<open>f"{v}"\<close>, that is \<^verbatim>\<open>str(v)\<close>: a \<^verbatim>\<open>str\<close> is inserted verbatim. Python renders
  numbers and containers by \<^verbatim>\<open>repr\<close> (decimal digits, quoting and escaping of nested
  strings), which is not modelled: it is the parameter \<open>repr\<close>.
\<close>

fun py_str :: "(pyval \<Rightarrow> string) \<Rightarrow> pyval \<Rightarrow> string" where
  "py_str repr (PStr s) = s"
| "py_str repr PNone = ''None''"
| "py_str repr (PBool b) = (if b then ''True'' else ''False'')"
| "py_str repr v = repr v"

text \<open>
  \<^verbatim>\<open>s.lower()\<close> on the ASCII letters. Python also lowers cased code points beyond ASCII,
  but none of them becomes \<^verbatim>\<open>m\<close>, \<^verbatim>\<open>p\<close>, \<^verbatim>\<open>3\<close> or a dot, so the one use of \<open>lower\<close>
  below, the comparison with \<^verbatim>\<open>".mp3"\<close>, is decided by the ASCII letters.
\<close>

definition lower_char :: "char \<Rightarrow> char" where
  "lower_char c = (let n = (of_char c :: nat) in if 65 \<le> n \<and> n \<le> 90 then char_of (n + 32) else c)"

definition lower :: "string \<Rightarrow> string" where
  "lower s = map lower_char s"

section \<open>pathlib on POSIX\<close>

text \<open>
  \<^verbatim>\<open>pathlib.Path\<close> on a POSIX system, as far as the server uses it: construction from a
  string, \<^verbatim>\<open>/\<close>, \<^verbatim>\<open>str\<close>, \<^verbatim>\<open>name\<close>, \<^verbatim>\<open>suffix\<close> and \<^verbatim>\<open>with_suffix\<close>. A path is its root
  (\<^verbatim>\<open>""\<close>, \<^verbatim>\<open>"/"\<close> or \<^verbatim>\<open>"//"\<close>) and its components; empty components and \<^verbatim>\<open>"."\<close> are dropped
  when the string is parsed. The suffix rules are those of CPython up to 3.13 (a name
  ending in a dot has no suffix). Slash and dot are ASCII, so indices and slices taken
  on the UTF-8 bytes cut where Python cuts on code points.
\<close>

record ppath =
  root :: string
  parts :: "string list"

text \<open>\<^verbatim>\<open>s.split(sep)\<close> for a one-character separator.\<close>

fun split_sep :: "char \<Rightarrow> string \<Rightarrow> string list" where
  "split_sep c [] = [[]]"
| "split_sep c (x # xs) =
     (if x = c then [] # split_sep c xs
      else (case split_sep c xs of [] \<Rightarrow> [[x]] | w # ws \<Rightarrow> (x # w) # ws))"

text \<open>\<^verbatim>\<open>sep.join(xs)\<close>.\<close>

fun join_sep :: "string \<Rightarrow> string list \<Rightarrow> string" where
  "join_sep sep [] = []"
| "join_sep sep [x] = x"
| "join_sep sep (x # y # ys) = x @ sep @ join_sep sep (y # ys)"

definition splitroot :: "string \<Rightarrow> string \<times> string" where
  "splitroot part =
     (if part \<noteq> [] \<and> hd part = CHR ''/'' then
        (let stripped_part = dropWhile (\<lambda>c. c = CHR ''/'') part
         in if length part - length stripped_part = 2 then (''//'', stripped_part)
            else (''/'', stripped_part))
      else ('''', part))"

definition Path :: "string \<Rightarrow> ppath" where
  "Path s =
     (let (rt, rel) = splitroot s
      in \<lparr>root = rt, parts = filter (\<lambda>x. x \<noteq> [] \<and> x \<noteq> ''.'') (split_sep (CHR ''/'') rel)\<rparr>)"

text \<open>\<^verbatim>\<open>p / s\<close>: an absolute right operand replaces the path.\<close>

definition joinpath :: "ppath \<Rightarrow> string \<Rightarrow> ppath" where
  "joinpath p s = (let q = Path s in if root q \<noteq> [] then q else p\<lparr>parts := parts p @ parts q\<rparr>)"

definition path_str :: "ppath \<Rightarrow> string" where
  "path_str p = (let s = root p @ join_sep ''/'' (parts p) in if s = [] then ''.'' else s)"

definition name :: "ppath \<Rightarrow> string" where
  "name p = (if parts p = [] then [] else last (parts p))"

text \<open>\<^verbatim>\<open>s.rfind(c)\<close>: the highest index of \<open>c\<close>, or \<open>-1\<close>.\<close>

definition rfind :: "char \<Rightarrow> string \<Rightarrow> int" where
  "rfind c s =
     (if c \<in> set s then int (length s) - 1 - int (length (takeWhile (\<lambda>x. x \<noteq> c) (rev s)))
      else - 1)"

definition suffix :: "ppath \<Rightarrow> string" where
  "suffix p =
     (let nm = name p; i = rfind (CHR ''.'') nm
      in if 0 < i \<and> i < int (length nm) - 1 then drop (nat i) nm else [])"

text \<open>
  \<^verbatim>\<open>p.with_suffix(suffix)\<close>. The rendering of the rejected suffix in the first two
  messages is plain quoting, which is what \<^verbatim>\<open>repr\<close> gives for a suffix free of quotes
  and escapes; a path with an empty name renders as one of \<^verbatim>\<open>'.'\<close>, \<^verbatim>\<open>'/'\<close>, \<^verbatim>\<open>'//'\<close>.
\<close>

definition with_suffix :: "ppath \<Rightarrow> string \<Rightarrow> exception + ppath" where
  "with_suffix p sfx =
     (if CHR ''/'' \<in> set sfx then
        Inl (Exc ''ValueError'' (''Invalid suffix '' @ [CHR 0x27] @ sfx @ [CHR 0x27]) None)
      else if (sfx \<noteq> [] \<and> hd sfx \<noteq> CHR ''.'') \<or> sfx = ''.'' then
        Inl (Exc ''ValueError'' (''Invalid suffix '' @ [CHR 0x27] @ sfx @ [CHR 0x27]) None)
      else if name p = [] then
        Inl (Exc ''ValueError''
               (''PosixPath('' @ [CHR 0x27] @ path_str p @ [CHR 0x27] @ '') has an empty name'') None)
      else
        (let old_suffix = suffix p;
             nm = (if old_suffix = [] then name p @ sfx
                   else take (length (name p) - length old_suffix) (name p) @ sfx)
         in Inr (p\<lparr>parts := butlast (parts p) @ [nm]\<rparr>)))"

section \<open>Startup: the download directory\<close>


text \<open>
  The file system as \<^verbatim>\<open>mkdir\<close> and \<^verbatim>\<open>stat\<close> see it on Linux, without symbolic links:
  the current directory and the nodes, each under the list of names leading to it from
  \<^verbatim>\<open>/\<close> (the root directory always exists); the limit on the length of a name in each
  directory and on the length of a whole path, in bytes; and, for each directory, the
  error with which the system refuses to search it (no permission) or to create an
  entry in it (no permission, a read-only or full file system, a quota), if it does.
\<close>

datatype node = Dir | File

datatype errno =
    EPERM | ENOENT | EIO | EBADF | ENOMEM | EACCES | EEXIST | ENOTDIR
  | ENOSPC | EROFS | EMLINK | ENAMETOOLONG | ELOOP | EDQUOT

record filesystem =
  cwd :: "string list"
  nodes :: "string list \<rightharpoonup> node"
  name_max :: "string list \<Rightarrow> nat"
  path_max :: nat
  deny_search :: "string list \<rightharpoonup> errno"
  deny_create :: "string list \<rightharpoonup> errno"

definition lookup :: "filesystem \<Rightarrow> string list \<Rightarrow> node option" where
  "lookup fs loc = (if loc = [] then Some Dir else nodes fs loc)"

definition step :: "string list \<Rightarrow> string \<Rightarrow> string list" where
  "step loc c = (if c = ''..'' then butlast loc else loc @ [c])"

text \<open>Looking a name up in a directory: where it leads and what is there.\<close>

definition dir_entry :: "filesystem \<Rightarrow> string list \<Rightarrow> string \<Rightarrow> errno + string list \<times> node option" where
  "dir_entry fs dir c =
     (case deny_search fs dir of
        Some e \<Rightarrow> Inl e
      | None \<Rightarrow>
          if name_max fs dir < length c then Inl ENAMETOOLONG
          else Inr (step dir c, lookup fs (step dir c)))"

text \<open>Walking down directories: every name on the way must be a directory.\<close>

fun walk :: "filesystem \<Rightarrow> string list \<Rightarrow> string list \<Rightarrow> errno + string list" where
  "walk fs dir [] = Inr dir"
| "walk fs dir (c # cs) =
     (case dir_entry fs dir c of
        Inl e \<Rightarrow> Inl e
      | Inr (loc, None) \<Rightarrow> Inl ENOENT
      | Inr (loc, Some File) \<Rightarrow> Inl ENOTDIR
      | Inr (loc, Some Dir) \<Rightarrow> walk fs loc cs)"











section \<open>The collaborator and its options\<close>

text \<open>
  The options dictionaries handed to \<^verbatim>\<open>yt_dlp.YoutubeDL\<close>. The base options have no
  \<^verbatim>\<open>format\<close> and no \<^verbatim>\<open>postprocessors\<close> entry (\<open>None\<close> and \<open>[]\<close> here); the logger and
  the progress hook are objects, not data, and the hook is modelled below.
\<close>

record options =
  no_warnings :: bool
  quiet :: bool
  audioquality :: string
  outtmpl :: string
  noplaylist :: bool
  extract_flat :: bool
  writethumbnail :: bool
  format :: "string option"
  postprocessors :: "(string \<times> string) list list"

definition YT_DLP_BASE_OPTS :: "ppath \<Rightarrow> options" where
  "YT_DLP_BASE_OPTS download_path =
     \<lparr>no_warnings = True,
      quiet = True,
      audioquality = ''0'',
      outtmpl = path_str (joinpath (joinpath download_path ''%(title)s'') ''%(title)s.%(ext)s''),
      noplaylist = True,
      extract_flat = False,
      writethumbnail = True,
      format = None,
      postprocessors = []\<rparr>"

text \<open>
  The dictionary a progress hook receives. yt-dlp documents \<^verbatim>\<open>status\<close> as always
  present and \<^verbatim>\<open>filename\<close> as always present when the status is \<^verbatim>\<open>downloading\<close> or
  \<^verbatim>\<open>finished\<close>; both are strings.
\<close>

record notification =
  status :: string
  filename :: string

text \<open>
  The collaborator is a black box: \<open>extract_info\<close> stands for
  \<^verbatim>\<open>YoutubeDL(opts).extract_info(q, download=False)\<close> and returns a value or raises;
  \<open>download\<close> stands for \<^verbatim>\<open>YoutubeDL(opts).download(urls)\<close> and gives the notifications
  it sends to the progress hook, in order, and the error it ends with, if any. Creating
  and closing the \<^verbatim>\<open>YoutubeDL\<close> object count as part of the call. \<open>repr\<close> is Python's
  \<^verbatim>\<open>repr\<close> (see \<open>py_str\<close>).
\<close>

record env =
  extract_info :: "options \<Rightarrow> string \<Rightarrow> exception + pyval"
  download :: "options \<Rightarrow> string list \<Rightarrow> notification list \<times> exception option"
  repr :: "pyval \<Rightarrow> string"

text \<open>The calls made to the collaborator, in order, are returned with every result.\<close>

datatype call = ExtractInfo options string | Download options "string list"

section \<open>The server's functions\<close>

text \<open>
  The decorator runs the function with the output streams redirected and raises again
  whatever it raises; the captured output is dropped.
\<close>

definition suppress_output :: "('a \<Rightarrow> call list \<times> (exception + 'b)) \<Rightarrow> 'a \<Rightarrow> call list \<times> (exception + 'b)" where
  "suppress_output func args =
     (case func args of
        (calls, Inl e) \<Rightarrow> (calls, Inl e)
      | (calls, Inr v) \<Rightarrow> (calls, Inr v))"

text \<open>The options of \<^verbatim>\<open>get_youtube_info\<close>: the base options, \<^verbatim>\<open>extract_flat\<close> set again.\<close>

definition info_opts :: "ppath \<Rightarrow> options" where
  "info_opts download_path = (YT_DLP_BASE_OPTS download_path)\<lparr>extract_flat := False\<rparr>"

text \<open>The \<^verbatim>\<open>try\<close> block of \<^verbatim>\<open>get_youtube_info\<close>; Python's \<^verbatim>\<open>or\<close> stops at the first true test.\<close>

definition get_youtube_info_try :: "env \<Rightarrow> ppath \<Rightarrow> string \<Rightarrow> call list \<times> (exception + pyval)" where
  "get_youtube_info_try E download_path query =
     (let yt_query = ''ytsearch1:'' @ query
      in ([ExtractInfo (info_opts download_path) yt_query],
          bind_exc (extract_info E (info_opts download_path) yt_query) (\<lambda>info.
            if \<not> truthy info then Inr PNone
            else bind_exc (py_in ''entries'' info) (\<lambda>has_entries.
              if \<not> has_entries then Inr PNone
              else bind_exc (py_getitem_str info ''entries'') (\<lambda>entries.
                   bind_exc (py_len entries) (\<lambda>n.
                     if n = 0 then Inr PNone
                     else bind_exc (py_getitem_str info ''entries'') (\<lambda>entries.
                            py_getitem_int (repr E) entries 0)))))))"

text \<open>\<^verbatim>\<open>except Exception as e: return None\<close>.\<close>

definition get_youtube_info :: "env \<Rightarrow> ppath \<Rightarrow> string \<Rightarrow> call list \<times> (exception + pyval)" where
  "get_youtube_info E download_path =
     suppress_output (\<lambda>query.
       case get_youtube_info_try E download_path query of
         (calls, Inl e) \<Rightarrow> (calls, Inr PNone)
       | (calls, Inr v) \<Rightarrow> (calls, Inr v))"

definition progress_hook :: "string list \<Rightarrow> notification \<Rightarrow> string list" where
  "progress_hook downloaded_files d =
     (if status d = ''finished'' then downloaded_files @ [filename d] else downloaded_files)"

definition success_msg :: "string \<Rightarrow> string \<Rightarrow> string \<Rightarrow> string" where
  "success_msg title artist file_name =
     ''Downloaded and playing: '' @ [CHR 0x27] @ title @ [CHR 0x27] @ '' by '' @ artist @ [CHR 0x0A]
     @ ''File saved as: '' @ file_name @ [CHR 0x0A]
     @ ''Added to music library database.'' @ [CHR 0x0A]"

text \<open>
  The options of \<^verbatim>\<open>download_and_store_track\<close>: best audio, converted to MP3 at
  192 kbit/s by the one post-processor.
\<close>

definition ydl_opts :: "ppath \<Rightarrow> options" where
  "ydl_opts download_path =
     (YT_DLP_BASE_OPTS download_path)
       \<lparr>format := Some ''bestaudio/best'',
        postprocessors := [[(''key'', ''FFmpegExtractAudio''),
                            (''preferredcodec'', ''mp3''),
                            (''preferredquality'', ''192'')]]\<rparr>"

text \<open>
  The \<^verbatim>\<open>try\<close> block of \<^verbatim>\<open>download_and_store_track\<close>. The hook appends to
  \<^verbatim>\<open>downloaded_files\<close> while the download runs; an error of the download leaves the
  block before the list is looked at.
\<close>

definition download_and_store_track_try ::
    "env \<Rightarrow> ppath \<Rightarrow> pyval \<Rightarrow> string \<Rightarrow> call list \<times> (exception + string)" where
  "download_and_store_track_try E download_path video_info query =
     (let yt_query = ''ytsearch1:'' @ query;
          (ds, err) = download E (ydl_opts download_path) [yt_query];
          downloaded_files = foldl progress_hook [] ds
      in ([Download (ydl_opts download_path) [yt_query]],
          case err of
            Some e \<Rightarrow> Inl e
          | None \<Rightarrow>
             (case downloaded_files of
                [] \<Rightarrow> Inr (''Download completed for: '' @ query @ '', but no files were found.'')
              | music_file # _ \<Rightarrow>
                  bind_exc
                    (let music_file_path = Path music_file
                     in if lower (suffix music_file_path) \<noteq> ''.mp3''
                        then map_sum id path_str (with_suffix music_file_path ''.mp3'')
                        else Inr music_file) (\<lambda>music_file.
                  bind_exc (py_get video_info ''title'' (PStr ''Unknown Title'')) (\<lambda>title.
                  bind_exc (py_get video_info ''uploader'' (PStr ''Unknown Artist'')) (\<lambda>artist.
                    Inr (success_msg (py_str (repr E) title) (py_str (repr E) artist)
                           (name (Path music_file)))))))))"

text \<open>
  \<^verbatim>\<open>except Exception as e: raise Exception(f"Failed to download track: {str(e)}")\<close>.
  The new exception is raised while \<open>e\<close> is handled, without \<^verbatim>\<open>from None\<close>, so Python
  sets its \<^verbatim>\<open>__context__\<close> to \<open>e\<close>.
\<close>

definition download_and_store_track ::
    "env \<Rightarrow> ppath \<Rightarrow> pyval \<Rightarrow> string \<Rightarrow> call list \<times> (exception + string)" where
  "download_and_store_track E download_path video_info query =
     suppress_output (\<lambda>(video_info, query).
       case download_and_store_track_try E download_path video_info query of
         (calls, Inl e) \<Rightarrow> (calls, Inl (Exc ''Exception'' (''Failed to download track: '' @ exc_str e) (Some e)))
       | (calls, Inr msg) \<Rightarrow> (calls, Inr msg)) (video_info, query)"

text \<open>The \<^verbatim>\<open>try\<close> block of \<^verbatim>\<open>download_and_play\<close>.\<close>

definition download_and_play_try :: "env \<Rightarrow> ppath \<Rightarrow> string \<Rightarrow> call list \<times> (exception + string)" where
  "download_and_play_try E download_path query =
     (case get_youtube_info E download_path query of
        (calls, Inl e) \<Rightarrow> (calls, Inl e)
      | (calls, Inr video_info) \<Rightarrow>
          if \<not> truthy video_info then
            (calls, Inr ''No search results found on YouTube for your query.'')
          else
            (case download_and_store_track E download_path video_info query of
               (calls', result) \<Rightarrow> (calls @ calls', result)))"

text \<open>
  \<^verbatim>\<open>except Exception as e\<close>: the message starts with the seven bytes that stand before
  \<^verbatim>\<open>Error processing request\<close> in the source file.
\<close>

definition error_prefix :: string where
  "error_prefix =
     [CHR 0xE2, CHR 0x80, CHR 0x9A, CHR 0xC3, CHR 0xB9, CHR 0xC3, CHR 0xA5]
     @ '' Error processing request: ''"

definition download_and_play :: "env \<Rightarrow> ppath \<Rightarrow> string \<Rightarrow> call list \<times> (exception + string)" where
  "download_and_play E download_path query =
     (case download_and_play_try E download_path query of
        (calls, Inl e) \<Rightarrow> (calls, Inr (error_prefix @ exc_str e))
      | (calls, Inr result) \<Rightarrow> (calls, Inr result))"

section \<open>Fixtures\<close>

text \<open>
  A resolved item and a collaborator that finds it and downloads it, reporting the file
  under its name before the conversion to MP3; then collaborators that fail or stay
  silent at one point each, one that reports a file with an upper-case suffix, and a
  file system with one directory, the current one, once writable and once read-only.
\<close>

definition believer :: pyval where
  "believer =
     PDict [(''id'', PStr ''7wtfhZwyrcc''), (''title'', PStr ''Believer''),
            (''uploader'', PStr ''Imagine Dragons'')]"

definition fixture :: env where
  "fixture =
     \<lparr>extract_info = (\<lambda>opts q. Inr (PDict [(''entries'', PList [believer])])),
      download = (\<lambda>opts urls.
        ([\<lparr>status = ''downloading'', filename = ''Believer/Believer.webm''\<rparr>,
          \<lparr>status = ''finished'', filename = ''Believer/Believer.webm''\<rparr>], None)),
      repr = (\<lambda>v. [])\<rparr>"

definition failing_download :: env where
  "failing_download =
     fixture\<lparr>download := (\<lambda>opts urls.
        ([\<lparr>status = ''downloading'', filename = ''Believer/Believer.webm''\<rparr>],
         Some (Exc ''DownloadError'' ''ERROR: unable to download video data'' None)))\<rparr>"

definition silent_download :: env where
  "silent_download =
     fixture\<lparr>download := (\<lambda>opts urls.
        ([\<lparr>status = ''downloading'', filename = ''Believer/Believer.webm''\<rparr>], None))\<rparr>"

definition failing_search :: env where
  "failing_search =
     fixture\<lparr>extract_info := (\<lambda>opts q. Inl (Exc ''DownloadError'' ''ERROR: network unreachable'' None))\<rparr>"

definition empty_search :: env where
  "empty_search =
     fixture\<lparr>extract_info := (\<lambda>opts q. Inr (PDict [(''id'', PStr q), (''entries'', PList [])]))\<rparr>"

definition falsy_entry_search :: env where
  "falsy_entry_search =
     fixture\<lparr>extract_info := (\<lambda>opts q. Inr (PDict [(''entries'', PList [PDict []])]))\<rparr>"

definition upper_case_download :: env where
  "upper_case_download =
     fixture\<lparr>download := (\<lambda>opts urls.
        ([\<lparr>status = ''finished'', filename = ''Believer/Believer.MP3''\<rparr>], None))\<rparr>"



section \<open>Notions used in the proofs\<close>

text \<open>
  What parsing guarantees of a path: one of the three roots, and components that are
  not empty, not a single dot and free of slashes.
\<close>

definition component :: "string \<Rightarrow> bool" where
  "component x = (x \<noteq> [] \<and> x \<noteq> ''.'' \<and> CHR ''/'' \<notin> set x)"

definition normal :: "ppath \<Rightarrow> bool" where
  "normal p = (root p \<in> {[], ''/'', ''//''} \<and> list_all component (parts p))"

text \<open>
  The base name of the file after the extension check of \<^verbatim>\<open>download_and_store_track\<close>,
  in closed form: the old suffix cut off and \<^verbatim>\<open>.mp3\<close> put in its place, or the name as
  it is.
\<close>

definition final_name :: "string \<Rightarrow> string" where
  "final_name f =
     (let p = Path f
      in if lower (suffix p) \<noteq> ''.mp3''
         then take (length (name p) - length (suffix p)) (name p) @ ''.mp3''
         else name p)"

section \<open>Paths: parsing and printing\<close>

lemma split_sep_no_sep: "x \<in> set (split_sep c s) \<Longrightarrow> c \<notin> set x"
  by (induction s arbitrary: x) (auto split: if_splits list.splits)

lemma split_sep_single: "c \<notin> set s \<Longrightarrow> split_sep c s = [s]"
  by (induction s) (auto split: list.splits)

lemma split_sep_append: "c \<notin> set x \<Longrightarrow> split_sep c (x @ c # s) = x # split_sep c s"
  by (induction x) (auto split: list.splits)

lemma split_join:
  "ps \<noteq> [] \<Longrightarrow> \<forall>x \<in> set ps. CHR ''/'' \<notin> set x \<Longrightarrow>
     split_sep (CHR ''/'') (join_sep ''/'' ps) = ps"
proof (induction ps)
  case Nil
  then show ?case by simp
next
  case (Cons x ps)
  show ?case
  proof (cases ps)
    case Nil
    with Cons.prems show ?thesis by (simp add: split_sep_single)
  next
    case (Cons y ys)
    with Cons.IH Cons.prems show ?thesis by (simp add: split_sep_append)
  qed
qed

lemma root_Path: "root (Path s) \<in> {[], ''/'', ''//''}"
  by (simp add: Path_def splitroot_def Let_def split: prod.splits)

lemma normal_Path: "normal (Path s)"
  unfolding normal_def
proof
  show "root (Path s) \<in> {[], ''/'', ''//''}" by (rule root_Path)
  show "list_all component (parts (Path s))"
    by (auto simp: Path_def component_def list_all_iff split: prod.splits dest: split_sep_no_sep)
qed

lemma join_sep_hd:
  assumes "ps \<noteq> []" "\<forall>x \<in> set ps. component x"
  shows "join_sep ''/'' ps \<noteq> [] \<and> hd (join_sep ''/'' ps) \<noteq> CHR ''/''"
proof (cases ps)
  case Nil
  with assms(1) show ?thesis by simp
next
  case (Cons x xs)
  with assms(2) have "x \<noteq> []" "hd x \<noteq> CHR ''/''"
    by (auto simp: component_def dest: hd_in_set)
  with Cons show ?thesis by (cases xs) auto
qed

lemma splitroot_rooted:
  assumes "rt \<in> {[], ''/'', ''//''}" "s = [] \<or> hd s \<noteq> CHR ''/''"
  shows "splitroot (rt @ s) = (rt, s)"
  using assms by (cases s) (auto simp: splitroot_def Let_def)

text \<open>Printing a parsed path and parsing it again gives the same path.\<close>

lemma Path_path_str:
  assumes "normal p"
  shows "Path (path_str p) = p"
proof (cases "parts p = []")
  case True
  with assms show ?thesis
    by (auto simp: normal_def path_str_def Path_def splitroot_def Let_def)
next
  case False
  let ?j = "join_sep ''/'' (parts p)"
  from assms have cs: "\<forall>x \<in> set (parts p). component x"
    by (simp add: normal_def list_all_iff)
  from False cs have j: "?j \<noteq> []" "hd ?j \<noteq> CHR ''/''"
    using join_sep_hd[of "parts p"] by auto
  from assms have rt: "root p \<in> {[], ''/'', ''//''}" by (simp add: normal_def)
  have sr: "splitroot (root p @ ?j) = (root p, ?j)"
    using splitroot_rooted[OF rt] j by simp
  have sp: "split_sep (CHR ''/'') ?j = parts p"
    using split_join[OF False] cs by (auto simp: component_def)
  have flt: "filter (\<lambda>x. x \<noteq> [] \<and> x \<noteq> ''.'') (parts p) = parts p"
    using cs by (auto simp: component_def intro!: filter_True)
  from j have ps: "path_str p = root p @ ?j"
    by (simp add: path_str_def Let_def)
  show ?thesis
    unfolding ps by (simp add: Path_def sr sp flt)
qed

lemma Path_component: "component n \<Longrightarrow> Path n = \<lparr>root = [], parts = [n]\<rparr>"
  by (cases n) (auto simp: Path_def splitroot_def component_def split_sep_single)

lemma name_component: "normal p \<Longrightarrow> name p \<noteq> [] \<Longrightarrow> component (name p)"
  by (auto simp: normal_def name_def list_all_iff split: if_splits)

section \<open>Paths: suffixes\<close>

lemma rfind_append:
  assumes "c \<notin> set t"
  shows "rfind c (s @ c # t) = int (length s)"
proof -
  from assms have "takeWhile (\<lambda>x. x \<noteq> c) (rev t) = rev t"
    by (auto simp: takeWhile_eq_all_conv)
  then have "takeWhile (\<lambda>x. x \<noteq> c) (rev (s @ c # t)) = rev t"
    by (simp add: takeWhile_tail)
  then show ?thesis by (simp add: rfind_def)
qed

lemma length_suffix_less: "name p \<noteq> [] \<Longrightarrow> length (suffix p) < length (name p)"
  by (auto simp: suffix_def Let_def)

lemma empty_name_suffix: "name p = [] \<Longrightarrow> suffix p = []"
  by (simp add: suffix_def Let_def rfind_def)

lemma suffix_of_mp3:
  assumes "stem \<noteq> []" "name p = stem @ ''.mp3''"
  shows "suffix p = ''.mp3''"
proof -
  have "rfind (CHR ''.'') (stem @ CHR ''.'' # ''mp3'') = int (length stem)"
    by (rule rfind_append) simp
  with assms show ?thesis by (simp add: suffix_def Let_def)
qed

text \<open>
  Replacing the suffix of a parsed path with a non-empty name succeeds; the new last
  component is again a component, and it is the name found when the printed result is
  parsed.
\<close>

lemma with_suffix_mp3:
  assumes "normal p" "name p \<noteq> []"
  defines "nm \<equiv> take (length (name p) - length (suffix p)) (name p) @ ''.mp3''"
  shows "with_suffix p ''.mp3'' = Inr (p\<lparr>parts := butlast (parts p) @ [nm]\<rparr>)"
    and "component nm"
    and "name (Path (path_str (p\<lparr>parts := butlast (parts p) @ [nm]\<rparr>))) = nm"
proof -
  let ?p' = "p\<lparr>parts := butlast (parts p) @ [nm]\<rparr>"
  show "with_suffix p ''.mp3'' = Inr ?p'"
    using assms(2) by (auto simp: with_suffix_def Let_def nm_def)
  have c: "component (name p)" using assms(1,2) by (rule name_component)
  have "set (take (length (name p) - length (suffix p)) (name p)) \<subseteq> set (name p)"
    by (rule set_take_subset)
  with c show cn: "component nm" by (auto simp: component_def nm_def)
  have "\<forall>x \<in> set (butlast (parts p)). component x"
    using assms(1) by (auto simp: normal_def list_all_iff dest: in_set_butlastD)
  with cn assms(1) have n: "normal ?p'" by (auto simp: normal_def list_all_iff)
  show "name (Path (path_str ?p')) = nm"
    by (simp add: Path_path_str[OF n] name_def)
qed

section \<open>Lower case\<close>

lemma lower_char_upper:
  assumes "65 \<le> (of_char c :: nat)" "(of_char c :: nat) \<le> 90"
  shows "(of_char (lower_char c) :: nat) = of_char c + 32"
proof -
  from assms have "(of_char c + 32 :: nat) mod 256 = of_char c + 32" by simp
  with assms show ?thesis by (simp add: lower_char_def Let_def)
qed

lemma lower_char_other:
  "\<not> (65 \<le> (of_char c :: nat) \<and> (of_char c :: nat) \<le> 90) \<Longrightarrow> lower_char c = c"
  by (auto simp: lower_char_def Let_def)

lemma lower_char_eq:
  "lower_char c = CHR ''.'' \<longleftrightarrow> c = CHR ''.''"
  "lower_char c = CHR ''3'' \<longleftrightarrow> c = CHR ''3''"
  "lower_char c = CHR ''m'' \<longleftrightarrow> c = CHR ''m'' \<or> c = CHR ''M''"
  "lower_char c = CHR ''p'' \<longleftrightarrow> c = CHR ''p'' \<or> c = CHR ''P''"
proof -
  have up: "lower_char c = d \<longleftrightarrow> (of_char c :: nat) + 32 = of_char d"
    if "65 \<le> (of_char c :: nat)" "(of_char c :: nat) \<le> 90" for d
    using lower_char_upper[OF that] by (metis of_char_eq_iff)
  have M: "(of_char c :: nat) = 77 \<longleftrightarrow> c = CHR ''M''"
    and P: "(of_char c :: nat) = 80 \<longleftrightarrow> c = CHR ''P''"
    using of_char_eq_iff[of c "CHR ''M''", where ?'a = nat]
      of_char_eq_iff[of c "CHR ''P''", where ?'a = nat]
    by simp_all
  show "lower_char c = CHR ''.'' \<longleftrightarrow> c = CHR ''.''"
    by (cases "65 \<le> (of_char c :: nat) \<and> (of_char c :: nat) \<le> 90")
       (auto simp: up lower_char_other)
  show "lower_char c = CHR ''3'' \<longleftrightarrow> c = CHR ''3''"
    by (cases "65 \<le> (of_char c :: nat) \<and> (of_char c :: nat) \<le> 90")
       (auto simp: up lower_char_other)
  show "lower_char c = CHR ''m'' \<longleftrightarrow> c = CHR ''m'' \<or> c = CHR ''M''"
    using M
    by (cases "65 \<le> (of_char c :: nat) \<and> (of_char c :: nat) \<le> 90")
       (auto simp: up lower_char_other)
  show "lower_char c = CHR ''p'' \<longleftrightarrow> c = CHR ''p'' \<or> c = CHR ''P''"
    using P
    by (cases "65 \<le> (of_char c :: nat) \<and> (of_char c :: nat) \<le> 90")
       (auto simp: up lower_char_other)
qed

text \<open>The strings whose lower case is \<^verbatim>\<open>.mp3\<close> are its four spellings in ASCII.\<close>

lemma lower_eq_mp3:
  "lower s = ''.mp3'' \<longleftrightarrow> s = ''.mp3'' \<or> s = ''.mP3'' \<or> s = ''.Mp3'' \<or> s = ''.MP3''"
proof
  assume a: "lower s = ''.mp3''"
  then have "length (lower s) = 4" by simp
  then have "length s = 4" by (simp add: lower_def)
  then obtain a b c d where s: "s = [a, b, c, d]"
    by (auto simp: length_Suc_conv numeral_eq_Suc)
  with a show "s = ''.mp3'' \<or> s = ''.mP3'' \<or> s = ''.Mp3'' \<or> s = ''.MP3''"
    by (auto simp: lower_def lower_char_eq)
next
  assume "s = ''.mp3'' \<or> s = ''.mP3'' \<or> s = ''.Mp3'' \<or> s = ''.MP3''"
  then show "lower s = ''.mp3''"
    by (auto simp: lower_def lower_char_eq)
qed

lemma suffix_final_name:
  assumes "name (Path f) \<noteq> []"
  shows "lower (suffix (Path (final_name f))) = ''.mp3''"
proof -
  let ?p = "Path f"
  let ?stem = "take (length (name ?p) - length (suffix ?p)) (name ?p)"
  have c: "component (final_name f)"
    using with_suffix_mp3(2)[OF normal_Path assms] name_component[OF normal_Path assms]
    by (simp add: final_name_def Let_def)
  show ?thesis
  proof (cases "lower (suffix ?p) \<noteq> ''.mp3''")
    case True
    then have fn: "final_name f = ?stem @ ''.mp3''" by (simp add: final_name_def Let_def)
    from length_suffix_less[OF assms] assms have "?stem \<noteq> []" by simp
    then have "suffix \<lparr>root = [], parts = [?stem @ ''.mp3'']\<rparr> = ''.mp3''"
      by (rule suffix_of_mp3) (simp add: name_def)
    with Path_component[OF c] show ?thesis
      by (simp add: fn lower_eq_mp3)
  next
    case False
    then have fn: "final_name f = name ?p" by (simp add: final_name_def Let_def)
    have "suffix (Path (name ?p)) = suffix ?p"
      using Path_component[OF c] by (simp add: fn suffix_def name_def)
    with False fn show ?thesis by simp
  qed
qed

section \<open>The resolver and the request handler\<close>

lemma suppress_output_id: "suppress_output func args = func args"
  by (simp add: suppress_output_def split: prod.splits sum.splits)

lemma get_youtube_info_calls:
  "fst (get_youtube_info E dp q) = [ExtractInfo (info_opts dp) (''ytsearch1:'' @ q)]"
  by (simp add: get_youtube_info_def suppress_output_id get_youtube_info_try_def Let_def
      split: sum.splits)

lemma get_youtube_info_returns: "\<exists>v. snd (get_youtube_info E dp q) = Inr v"
  by (simp add: get_youtube_info_def suppress_output_id get_youtube_info_try_def Let_def
      split: sum.splits)

lemma get_youtube_info_error:
  assumes "extract_info E (info_opts dp) (''ytsearch1:'' @ q) = Inl e"
  shows "snd (get_youtube_info E dp q) = Inr PNone"
  using assms
  by (simp add: get_youtube_info_def suppress_output_id get_youtube_info_try_def Let_def
      bind_exc_def)

text \<open>
  What the resolver returns when the search returns: the first element of a non-empty
  list under \<^verbatim>\<open>entries\<close> (the first code point, should the collaborator put a string
  there), and \<^verbatim>\<open>None\<close> in every other case.
\<close>

lemma get_youtube_info_value:
  assumes "extract_info E (info_opts dp) (''ytsearch1:'' @ q) = Inr info"
  shows "snd (get_youtube_info E dp q) =
     Inr (case info of
            PDict d \<Rightarrow> (case map_of d ''entries'' of
                           Some (PList (x # xs)) \<Rightarrow> x
                         | Some (PStr (c # cs)) \<Rightarrow> PStr (c # takeWhile utf8_cont cs)
                         | _ \<Rightarrow> PNone)
          | _ \<Rightarrow> PNone)"
  using assms
  by (auto simp add: get_youtube_info_def suppress_output_id get_youtube_info_try_def Let_def
      bind_exc_def seq_index_def split: pyval.splits option.splits list.splits sum.splits)

lemma download_and_play_not_found:
  assumes "snd (get_youtube_info E dp q) = Inr v" "\<not> truthy v"
  shows "download_and_play E dp q =
     ([ExtractInfo (info_opts dp) (''ytsearch1:'' @ q)],
      Inr ''No search results found on YouTube for your query.'')"
proof -
  from assms(1) get_youtube_info_calls[of E dp q]
  have "get_youtube_info E dp q = ([ExtractInfo (info_opts dp) (''ytsearch1:'' @ q)], Inr v)"
    by (cases "get_youtube_info E dp q") simp
  with assms(2) show ?thesis
    by (simp add: download_and_play_def download_and_play_try_def)
qed

lemma download_and_play_found:
  assumes "snd (get_youtube_info E dp q) = Inr v" "truthy v"
  shows "download_and_play E dp q =
     (ExtractInfo (info_opts dp) (''ytsearch1:'' @ q) # fst (download_and_store_track E dp v q),
      case snd (download_and_store_track E dp v q) of
        Inl e \<Rightarrow> Inr (error_prefix @ exc_str e)
      | Inr result \<Rightarrow> Inr result)"
proof -
  from assms(1) get_youtube_info_calls[of E dp q]
  have "get_youtube_info E dp q = ([ExtractInfo (info_opts dp) (''ytsearch1:'' @ q)], Inr v)"
    by (cases "get_youtube_info E dp q") simp
  with assms(2) show ?thesis
    by (simp add: download_and_play_def download_and_play_try_def split: prod.splits sum.splits)
qed

lemma is_substring_append: "is_substring k (a @ k @ b)"
  unfolding is_substring_def list_ex_iff
  by (rule bexI[of _ "length a"]) auto

section \<open>The fetcher\<close>

lemma foldl_progress_hook:
  "foldl progress_hook acc ds = acc @ map filename (filter (\<lambda>d. status d = ''finished'') ds)"
  by (induction ds arbitrary: acc) (auto simp: progress_hook_def)

lemma download_and_store_track_calls:
  "fst (download_and_store_track E dp v q) = [Download (ydl_opts dp) [''ytsearch1:'' @ q]]"
  by (simp add: download_and_store_track_def suppress_output_id download_and_store_track_try_def
      Let_def split: prod.splits sum.splits)

lemma download_and_store_track_error:
  assumes "snd (download E (ydl_opts dp) [''ytsearch1:'' @ q]) = Some e"
  shows "snd (download_and_store_track E dp v q)
     = Inl (Exc ''Exception'' (''Failed to download track: '' @ exc_str e) (Some e))"
proof -
  from assms obtain ds where "download E (ydl_opts dp) [''ytsearch1:'' @ q] = (ds, Some e)"
    by (cases "download E (ydl_opts dp) [''ytsearch1:'' @ q]") simp
  then show ?thesis
    by (simp add: download_and_store_track_def suppress_output_id
        download_and_store_track_try_def Let_def)
qed

lemma download_and_store_track_no_files:
  assumes "download E (ydl_opts dp) [''ytsearch1:'' @ q] = (ds, None)"
    and "filter (\<lambda>d. status d = ''finished'') ds = []"
  shows "snd (download_and_store_track E dp v q)
     = Inr (''Download completed for: '' @ q @ '', but no files were found.'')"
  using assms
  by (simp add: download_and_store_track_def suppress_output_id download_and_store_track_try_def
      Let_def foldl_progress_hook)

text \<open>
  The outcome once a file was reported: an error when the reported path has no name or
  the item is not a dictionary, the success message otherwise.
\<close>

lemma download_and_store_track_file:
  assumes "download E (ydl_opts dp) [''ytsearch1:'' @ q] = (ds, None)"
    and "filter (\<lambda>d. status d = ''finished'') ds = d # rest"
  shows "snd (download_and_store_track E dp v q) =
     (if name (Path (filename d)) = [] then
        Inl (Exc ''Exception''
               (''Failed to download track: '' @ ''PosixPath('' @ [CHR 0x27]
                  @ path_str (Path (filename d)) @ [CHR 0x27] @ '') has an empty name'')
               (Some (Exc ''ValueError''
                        (''PosixPath('' @ [CHR 0x27] @ path_str (Path (filename d)) @ [CHR 0x27]
                           @ '') has an empty name'') None)))
      else case v of
        PDict m \<Rightarrow>
          Inr (success_msg
                 (case map_of m ''title'' of None \<Rightarrow> ''Unknown Title'' | Some t \<Rightarrow> py_str (repr E) t)
                 (case map_of m ''uploader'' of None \<Rightarrow> ''Unknown Artist'' | Some a \<Rightarrow> py_str (repr E) a)
                 (final_name (filename d)))
      | _ \<Rightarrow>
          Inl (Exc ''Exception''
                 (''Failed to download track: '' @ [CHR 0x27] @ type_name v @ [CHR 0x27]
                    @ '' object has no attribute '' @ [CHR 0x27] @ ''get'' @ [CHR 0x27])
                 (Some (Exc ''AttributeError''
                          ([CHR 0x27] @ type_name v @ [CHR 0x27] @ '' object has no attribute ''
                             @ [CHR 0x27] @ ''get'' @ [CHR 0x27]) None))))"
proof (cases "name (Path (filename d)) = []")
  case True
  then have "suffix (Path (filename d)) = []" by (rule empty_name_suffix)
  with True assms show ?thesis
    by (simp add: download_and_store_track_def suppress_output_id download_and_store_track_try_def
        Let_def foldl_progress_hook lower_def with_suffix_def bind_exc_def)
next
  case False
  note ws = with_suffix_mp3(1,3)[OF normal_Path False]
  from False assms show ?thesis
    by (cases v)
       (auto simp add: download_and_store_track_def suppress_output_id
          download_and_store_track_try_def Let_def foldl_progress_hook bind_exc_def ws
          final_name_def split: option.splits)
qed

lemma download_and_store_track_dict:
  assumes "download E (ydl_opts dp) [''ytsearch1:'' @ q] = (ds, None)"
    and "filter (\<lambda>d. status d = ''finished'') ds = d # rest"
    and "name (Path (filename d)) \<noteq> []"
  shows "snd (download_and_store_track E dp (PDict m) q) =
     Inr (success_msg
            (case map_of m ''title'' of None \<Rightarrow> ''Unknown Title'' | Some t \<Rightarrow> py_str (repr E) t)
            (case map_of m ''uploader'' of None \<Rightarrow> ''Unknown Artist'' | Some a \<Rightarrow> py_str (repr E) a)
            (final_name (filename d)))"
  using assms(3) download_and_store_track_file[OF assms(1,2), of "PDict m"] by simp

lemma download_and_store_track_success:
  assumes "download E (ydl_opts dp) [''ytsearch1:'' @ q] = (ds, None)"
    and "filter (\<lambda>d. status d = ''finished'') ds = d # rest"
    and "snd (download_and_store_track E dp v q) = Inr msg"
  shows "name (Path (filename d)) \<noteq> []" and "\<exists>m. v = PDict m"
  using assms(3) download_and_store_track_file[OF assms(1,2), of v]
  by (auto split: if_splits pyval.splits)

text \<open>The closed form of the final name, with the four spellings in place of \<open>lower\<close>.\<close>

lemma final_name_spellings:
  "final_name f =
     (if suffix (Path f) = ''.mp3'' \<or> suffix (Path f) = ''.mP3''
         \<or> suffix (Path f) = ''.Mp3'' \<or> suffix (Path f) = ''.MP3''
      then name (Path f)
      else take (length (name (Path f)) - length (suffix (Path f))) (name (Path f)) @ ''.mp3'')"
  by (simp add: final_name_def Let_def lower_eq_mp3)

lemma fixture_file:
  "Path ''Believer/Believer.webm'' = \<lparr>root = [], parts = [''Believer'', ''Believer.webm'']\<rparr>"
  "suffix \<lparr>root = [], parts = [''Believer'', ''Believer.webm'']\<rparr> = ''.webm''"
  "name \<lparr>root = [], parts = [''Believer'', ''Believer.webm'']\<rparr> = ''Believer.webm''"
  "Path ''Believer/Believer.MP3'' = \<lparr>root = [], parts = [''Believer'', ''Believer.MP3'']\<rparr>"
  "suffix \<lparr>root = [], parts = [''Believer'', ''Believer.MP3'']\<rparr> = ''.MP3''"
  "name \<lparr>root = [], parts = [''Believer'', ''Believer.MP3'']\<rparr> = ''Believer.MP3''"
  by (simp_all add: Path_def splitroot_def suffix_def name_def rfind_def)

section \<open>Creating the download directory\<close>

lemma walk_append:
  "walk fs dir (xs @ ys) = bind_exc (walk fs dir xs) (\<lambda>l. walk fs l ys)"
  by (induction xs arbitrary: dir)
     (auto simp: bind_exc_def split: sum.splits prod.splits option.splits node.splits)











section \<open>The claims\<close>

text \<open>
  C1. The request the fetcher sends to the download collaborator is, for every resolved
  item, the one-element list holding the first-result search \<^verbatim>\<open>ytsearch1:<query>\<close>
  for the original query, with the download options; the item itself, and so the
  identifier in its metadata, is not part of the request.
\<close>

theorem fetch_request_from_query:
  "fst (download_and_store_track E download_path video_info query)
     = [Download (ydl_opts download_path) [''ytsearch1:'' @ query]]"
  by (rule download_and_store_track_calls)

text \<open>
  C1 as the specification words it, that the request names the exact resolved item by
  its identifier, does not hold: two items with different identifiers and the same query
  lead to the same request, and the identifier does not occur in it.
\<close>

theorem fetch_request_counterexample:
  "py_get (PDict [(''id'', PStr ''aaa'')]) ''id'' PNone \<noteq> py_get (PDict [(''id'', PStr ''bbb'')]) ''id'' PNone
   \<and> fst (download_and_store_track fixture (Path ''./'') (PDict [(''id'', PStr ''aaa'')]) ''believer'')
     = fst (download_and_store_track fixture (Path ''./'') (PDict [(''id'', PStr ''bbb'')]) ''believer'')
   \<and> fst (download_and_store_track fixture (Path ''./'') (PDict [(''id'', PStr ''aaa'')]) ''believer'')
     = [Download (ydl_opts (Path ''./'')) [''ytsearch1:believer'']]
   \<and> \<not> is_substring ''aaa'' ''ytsearch1:believer''"
  by (simp add: download_and_store_track_calls is_substring_def)

text \<open>
  C2. For every query the request handler returns a text and raises nothing. If the
  download collaborator was called and ended with an error, the text is the error prefix
  followed by \<^verbatim>\<open>Failed to download track: \<close> and the message of that error, so it contains
  \<^verbatim>\<open>Failed to download track\<close>.
\<close>

theorem download_and_play_never_raises:
  "(\<exists>msg. snd (download_and_play E download_path query) = Inr msg)
   \<and> (Download opts urls \<in> set (fst (download_and_play E download_path query))
        \<and> snd (download E opts urls) = Some e
      \<longrightarrow> snd (download_and_play E download_path query)
            = Inr (error_prefix @ ''Failed to download track: '' @ exc_str e)
          \<and> is_substring ''Failed to download track''
              (error_prefix @ ''Failed to download track: '' @ exc_str e))"
proof -
  obtain v where v: "snd (get_youtube_info E download_path query) = Inr v"
    using get_youtube_info_returns by blast
  show ?thesis
  proof (cases "truthy v")
    case False
    with v show ?thesis by (simp add: download_and_play_not_found)
  next
    case True
    have sub: "is_substring ''Failed to download track''
              (error_prefix @ ''Failed to download track'' @ '': '' @ exc_str e)"
      by (rule is_substring_append)
    from sub v True show ?thesis
      by (auto simp: download_and_play_found download_and_store_track_calls
          download_and_store_track_error split: sum.splits)
  qed
qed

theorem download_and_play_never_raises_witness:
  "Download (ydl_opts (Path ''./'')) [''ytsearch1:believer'']
      \<in> set (fst (download_and_play failing_download (Path ''./'') ''believer''))
   \<and> snd (download failing_download (ydl_opts (Path ''./'')) [''ytsearch1:believer''])
      = Some (Exc ''DownloadError'' ''ERROR: unable to download video data'' None)
   \<and> snd (download_and_play failing_download (Path ''./'') ''believer'')
      = Inr (error_prefix @ ''Failed to download track: ERROR: unable to download video data'')"
proof -
  have v: "snd (get_youtube_info failing_download (Path ''./'') ''believer'') = Inr believer"
    using get_youtube_info_value[of failing_download "Path ''./''" "''believer''"
        "PDict [(''entries'', PList [believer])]"]
    by (simp add: failing_download_def fixture_def)
  have t: "truthy believer" by (simp add: believer_def)
  have c: "Download (ydl_opts (Path ''./'')) [''ytsearch1:believer'']
      \<in> set (fst (download_and_play failing_download (Path ''./'') ''believer''))"
    by (simp add: download_and_play_found[OF v t] download_and_store_track_calls)
  have d: "snd (download failing_download (ydl_opts (Path ''./'')) [''ytsearch1:believer''])
      = Some (Exc ''DownloadError'' ''ERROR: unable to download video data'' None)"
    by (simp add: failing_download_def)
  from c d download_and_play_never_raises[of failing_download "Path ''./''" "''believer''"
      "ydl_opts (Path ''./'')" "[''ytsearch1:believer'']"
      "Exc ''DownloadError'' ''ERROR: unable to download video data'' None"]
  show ?thesis by simp
qed

text \<open>
  C3. If the search raises an error, whatever it is, or yields no result (it returns
  \<^verbatim>\<open>None\<close>, or a dictionary without \<^verbatim>\<open>entries\<close>, or one whose \<^verbatim>\<open>entries\<close> is the empty
  list), the resolver returns \<^verbatim>\<open>None\<close>, with nothing of the error in it, and the request
  handler returns the fixed no-results message; the search is the only call made to the
  collaborator, so the fetcher is not invoked.
\<close>

theorem search_failure_is_not_found:
  assumes "extract_info E (info_opts download_path) (''ytsearch1:'' @ query) = r"
    and "r = Inl e \<or> r = Inr PNone
         \<or> r = Inr (PDict d) \<and> (map_of d ''entries'' = None \<or> map_of d ''entries'' = Some (PList []))"
  shows "get_youtube_info E download_path query
           = ([ExtractInfo (info_opts download_path) (''ytsearch1:'' @ query)], Inr PNone)
       \<and> download_and_play E download_path query
           = ([ExtractInfo (info_opts download_path) (''ytsearch1:'' @ query)],
              Inr ''No search results found on YouTube for your query.'')"
proof -
  have "snd (get_youtube_info E download_path query) = Inr PNone"
  proof (cases r)
    case (Inl e')
    with assms(1) show ?thesis by (simp add: get_youtube_info_error)
  next
    case (Inr info)
    with assms show ?thesis by (auto simp: get_youtube_info_value)
  qed
  then show ?thesis
    using get_youtube_info_calls[of E download_path query]
    by (simp add: download_and_play_not_found prod_eq_iff)
qed

theorem search_failure_is_not_found_witness:
  "extract_info failing_search (info_opts (Path ''./'')) (''ytsearch1:'' @ ''believer'')
      = Inl (Exc ''DownloadError'' ''ERROR: network unreachable'' None)
   \<and> get_youtube_info failing_search (Path ''./'') ''believer''
      = ([ExtractInfo (info_opts (Path ''./'')) ''ytsearch1:believer''], Inr PNone)
   \<and> download_and_play failing_search (Path ''./'') ''believer''
      = ([ExtractInfo (info_opts (Path ''./'')) ''ytsearch1:believer''],
         Inr ''No search results found on YouTube for your query.'')
   \<and> extract_info empty_search (info_opts (Path ''./'')) (''ytsearch1:'' @ ''believer'')
      = Inr (PDict [(''id'', PStr ''ytsearch1:believer''), (''entries'', PList [])])
   \<and> map_of [(''id'', PStr ''ytsearch1:believer''), (''entries'', PList [])] ''entries''
      = Some (PList [])
   \<and> download_and_play empty_search (Path ''./'') ''believer''
      = ([ExtractInfo (info_opts (Path ''./'')) ''ytsearch1:believer''],
         Inr ''No search results found on YouTube for your query.'')"
  using search_failure_is_not_found[of failing_search "Path ''./''" "''believer''"
      "Inl (Exc ''DownloadError'' ''ERROR: network unreachable'' None)"
      "Exc ''DownloadError'' ''ERROR: network unreachable'' None"]
    search_failure_is_not_found[of empty_search "Path ''./''" "''believer''"
      "Inr (PDict [(''id'', PStr ''ytsearch1:believer''), (''entries'', PList [])])" _
      "[(''id'', PStr ''ytsearch1:believer''), (''entries'', PList [])]"]
  by (simp add: failing_search_def empty_search_def)

text \<open>
  C4. Whenever the fetcher returns a message after a download that reported a finished
  file, the message is the success text, and the file name in its line
  \<^verbatim>\<open>File saved as: ...\<close> carries the suffix \<^verbatim>\<open>.mp3\<close> whatever the collaborator reported: if
  the suffix of the reported path is one of the spellings of \<^verbatim>\<open>.mp3\<close> in upper or lower
  case, the name is the reported name unchanged; otherwise it is the reported name with
  its suffix replaced by \<^verbatim>\<open>.mp3\<close>. The path used is that of the first finished
  notification.
\<close>

theorem embedded_file_name_is_mp3:
  fixes d :: notification
  defines "p \<equiv> Path (filename d)"
  defines "file_name \<equiv>
     (if suffix p = ''.mp3'' \<or> suffix p = ''.mP3'' \<or> suffix p = ''.Mp3'' \<or> suffix p = ''.MP3''
      then name p
      else take (length (name p) - length (suffix p)) (name p) @ ''.mp3'')"
  assumes "download E (ydl_opts download_path) [''ytsearch1:'' @ query] = (ds, None)"
    and "filter (\<lambda>d. status d = ''finished'') ds = d # rest"
    and "snd (download_and_store_track E download_path video_info query) = Inr msg"
  shows "(\<exists>title artist.
           msg = ''Downloaded and playing: '' @ [CHR 0x27] @ title @ [CHR 0x27] @ '' by '' @ artist
                 @ [CHR 0x0A] @ ''File saved as: '' @ file_name @ [CHR 0x0A]
                 @ ''Added to music library database.'' @ [CHR 0x0A])
       \<and> is_substring (''File saved as: '' @ file_name @ [CHR 0x0A]) msg
       \<and> (suffix (Path file_name) = ''.mp3'' \<or> suffix (Path file_name) = ''.mP3''
          \<or> suffix (Path file_name) = ''.Mp3'' \<or> suffix (Path file_name) = ''.MP3'')"
proof -
  have fn: "file_name = final_name (filename d)"
    by (simp add: file_name_def p_def final_name_spellings)
  note ok = download_and_store_track_success[OF assms(3,4,5)]
  from ok(2) obtain m where m: "video_info = PDict m" by blast
  from assms(5) obtain title artist where msg: "msg = success_msg title artist file_name"
    unfolding fn m download_and_store_track_dict[OF assms(3,4) ok(1)] by blast
  have sub: "is_substring (''File saved as: '' @ file_name @ [CHR 0x0A])
      ((''Downloaded and playing: '' @ [CHR 0x27] @ title @ [CHR 0x27] @ '' by '' @ artist
          @ [CHR 0x0A])
       @ (''File saved as: '' @ file_name @ [CHR 0x0A])
       @ (''Added to music library database.'' @ [CHR 0x0A]))"
    by (rule is_substring_append)
  have "lower (suffix (Path file_name)) = ''.mp3''"
    unfolding fn by (rule suffix_final_name[OF ok(1)])
  then have sfx: "suffix (Path file_name) = ''.mp3'' \<or> suffix (Path file_name) = ''.mP3''
      \<or> suffix (Path file_name) = ''.Mp3'' \<or> suffix (Path file_name) = ''.MP3''"
    by (simp add: lower_eq_mp3)
  from sub have "is_substring (''File saved as: '' @ file_name @ [CHR 0x0A]) msg"
    by (simp add: msg success_msg_def)
  moreover have "\<exists>title artist.
      msg = ''Downloaded and playing: '' @ [CHR 0x27] @ title @ [CHR 0x27] @ '' by '' @ artist
            @ [CHR 0x0A] @ ''File saved as: '' @ file_name @ [CHR 0x0A]
            @ ''Added to music library database.'' @ [CHR 0x0A]"
    unfolding msg success_msg_def by blast
  ultimately show ?thesis using sfx by blast
qed

theorem embedded_file_name_is_mp3_witness:
  "download fixture (ydl_opts (Path ''./'')) [''ytsearch1:'' @ ''believer'']
      = ([\<lparr>status = ''downloading'', filename = ''Believer/Believer.webm''\<rparr>,
          \<lparr>status = ''finished'', filename = ''Believer/Believer.webm''\<rparr>], None)
   \<and> filter (\<lambda>d. status d = ''finished'')
        [\<lparr>status = ''downloading'', filename = ''Believer/Believer.webm''\<rparr>,
         \<lparr>status = ''finished'', filename = ''Believer/Believer.webm''\<rparr>]
      = [\<lparr>status = ''finished'', filename = ''Believer/Believer.webm''\<rparr>]
   \<and> snd (download_and_store_track fixture (Path ''./'') believer ''believer'')
      = Inr (''Downloaded and playing: '' @ [CHR 0x27] @ ''Believer'' @ [CHR 0x27]
             @ '' by Imagine Dragons'' @ [CHR 0x0A] @ ''File saved as: Believer.mp3'' @ [CHR 0x0A]
             @ ''Added to music library database.'' @ [CHR 0x0A])
   \<and> is_substring (''File saved as: Believer.mp3'' @ [CHR 0x0A])
        (''Downloaded and playing: '' @ [CHR 0x27] @ ''Believer'' @ [CHR 0x27]
         @ '' by Imagine Dragons'' @ [CHR 0x0A] @ ''File saved as: Believer.mp3'' @ [CHR 0x0A]
         @ ''Added to music library database.'' @ [CHR 0x0A])
   \<and> suffix (Path ''Believer.mp3'') = ''.mp3''
   \<and> download upper_case_download (ydl_opts (Path ''./'')) [''ytsearch1:'' @ ''believer'']
      = ([\<lparr>status = ''finished'', filename = ''Believer/Believer.MP3''\<rparr>], None)
   \<and> snd (download_and_store_track upper_case_download (Path ''./'') believer ''believer'')
      = Inr (''Downloaded and playing: '' @ [CHR 0x27] @ ''Believer'' @ [CHR 0x27]
             @ '' by Imagine Dragons'' @ [CHR 0x0A] @ ''File saved as: Believer.MP3'' @ [CHR 0x0A]
             @ ''Added to music library database.'' @ [CHR 0x0A])
   \<and> is_substring (''File saved as: Believer.MP3'' @ [CHR 0x0A])
        (''Downloaded and playing: '' @ [CHR 0x27] @ ''Believer'' @ [CHR 0x27]
         @ '' by Imagine Dragons'' @ [CHR 0x0A] @ ''File saved as: Believer.MP3'' @ [CHR 0x0A]
         @ ''Added to music library database.'' @ [CHR 0x0A])
   \<and> suffix (Path ''Believer.MP3'') = ''.MP3''"
proof -
  have r: "snd (download_and_store_track fixture (Path ''./'') believer ''believer'')
      = Inr (''Downloaded and playing: '' @ [CHR 0x27] @ ''Believer'' @ [CHR 0x27]
             @ '' by Imagine Dragons'' @ [CHR 0x0A] @ ''File saved as: Believer.mp3'' @ [CHR 0x0A]
             @ ''Added to music library database.'' @ [CHR 0x0A])"
    using download_and_store_track_dict[of fixture "Path ''./''" "''believer''"
      "[\<lparr>status = ''downloading'', filename = ''Believer/Believer.webm''\<rparr>,
        \<lparr>status = ''finished'', filename = ''Believer/Believer.webm''\<rparr>]"
      "\<lparr>status = ''finished'', filename = ''Believer/Believer.webm''\<rparr>" "[]"
      "[(''id'', PStr ''7wtfhZwyrcc''), (''title'', PStr ''Believer''),
        (''uploader'', PStr ''Imagine Dragons'')]"]
    by (simp add: fixture_def believer_def final_name_spellings fixture_file success_msg_def)
  have u: "snd (download_and_store_track upper_case_download (Path ''./'') believer ''believer'')
      = Inr (''Downloaded and playing: '' @ [CHR 0x27] @ ''Believer'' @ [CHR 0x27]
             @ '' by Imagine Dragons'' @ [CHR 0x0A] @ ''File saved as: Believer.MP3'' @ [CHR 0x0A]
             @ ''Added to music library database.'' @ [CHR 0x0A])"
    using download_and_store_track_dict[of upper_case_download "Path ''./''" "''believer''"
      "[\<lparr>status = ''finished'', filename = ''Believer/Believer.MP3''\<rparr>]"
      "\<lparr>status = ''finished'', filename = ''Believer/Believer.MP3''\<rparr>" "[]"
      "[(''id'', PStr ''7wtfhZwyrcc''), (''title'', PStr ''Believer''),
        (''uploader'', PStr ''Imagine Dragons'')]"]
    by (simp add: upper_case_download_def fixture_def believer_def final_name_spellings
        fixture_file success_msg_def)
  from r embedded_file_name_is_mp3[of fixture "Path ''./''" "''believer''"
      "[\<lparr>status = ''downloading'', filename = ''Believer/Believer.webm''\<rparr>,
        \<lparr>status = ''finished'', filename = ''Believer/Believer.webm''\<rparr>]"
      "\<lparr>status = ''finished'', filename = ''Believer/Believer.webm''\<rparr>" "[]" believer, OF _ _ r]
  have a: "is_substring (''File saved as: Believer.mp3'' @ [CHR 0x0A])
        (''Downloaded and playing: '' @ [CHR 0x27] @ ''Believer'' @ [CHR 0x27]
         @ '' by Imagine Dragons'' @ [CHR 0x0A] @ ''File saved as: Believer.mp3'' @ [CHR 0x0A]
         @ ''Added to music library database.'' @ [CHR 0x0A])"
    by (simp add: fixture_def fixture_file)
  from u embedded_file_name_is_mp3[of upper_case_download "Path ''./''" "''believer''"
      "[\<lparr>status = ''finished'', filename = ''Believer/Believer.MP3''\<rparr>]"
      "\<lparr>status = ''finished'', filename = ''Believer/Believer.MP3''\<rparr>" "[]" believer, OF _ _ u]
  have b: "is_substring (''File saved as: Believer.MP3'' @ [CHR 0x0A])
        (''Downloaded and playing: '' @ [CHR 0x27] @ ''Believer'' @ [CHR 0x27]
         @ '' by Imagine Dragons'' @ [CHR 0x0A] @ ''File saved as: Believer.MP3'' @ [CHR 0x0A]
         @ ''Added to music library database.'' @ [CHR 0x0A])"
    by (simp add: upper_case_download_def fixture_def fixture_file)
  have c: "suffix (Path ''Believer.mp3'') = ''.mp3''" "suffix (Path ''Believer.MP3'') = ''.MP3''"
    by (simp_all add: Path_def splitroot_def suffix_def name_def rfind_def)
  from r u a b c show ?thesis
    by (simp add: fixture_def upper_case_download_def)
qed

text \<open>
  C5. If the download ends without an error and none of its notifications has the
  status \<^verbatim>\<open>finished\<close>, the fetcher does not fail: it returns the message that the
  download completed but no files were found, which is not a success message.
\<close>

theorem no_finished_notification:
  assumes "download E (ydl_opts download_path) [''ytsearch1:'' @ query] = (ds, None)"
    and "\<forall>d \<in> set ds. status d \<noteq> ''finished''"
  shows "download_and_store_track E download_path video_info query
           = ([Download (ydl_opts download_path) [''ytsearch1:'' @ query]],
              Inr (''Download completed for: '' @ query @ '', but no files were found.''))
       \<and> (\<forall>title artist file_name.
            ''Download completed for: '' @ query @ '', but no files were found.''
              \<noteq> success_msg title artist file_name)"
proof -
  from assms(2) have "filter (\<lambda>d. status d = ''finished'') ds = []"
    by (simp add: filter_empty_conv)
  with assms(1) have "snd (download_and_store_track E download_path video_info query)
      = Inr (''Download completed for: '' @ query @ '', but no files were found.'')"
    by (rule download_and_store_track_no_files)
  then show ?thesis
    using download_and_store_track_calls[of E download_path video_info query]
    by (simp add: prod_eq_iff success_msg_def)
qed

theorem no_finished_notification_witness:
  "download silent_download (ydl_opts (Path ''./'')) [''ytsearch1:'' @ ''believer'']
      = ([\<lparr>status = ''downloading'', filename = ''Believer/Believer.webm''\<rparr>], None)
   \<and> list_all (\<lambda>d. status d \<noteq> ''finished'')
         [\<lparr>status = ''downloading'', filename = ''Believer/Believer.webm''\<rparr>]
   \<and> download_and_store_track silent_download (Path ''./'') believer ''believer''
      = ([Download (ydl_opts (Path ''./'')) [''ytsearch1:believer'']],
         Inr ''Download completed for: believer, but no files were found.'')"
  using no_finished_notification[of silent_download "Path ''./''" "''believer''"
      "[\<lparr>status = ''downloading'', filename = ''Believer/Believer.webm''\<rparr>]" believer]
  by (simp add: silent_download_def)

text \<open>
  C6. If the download ends with an error, the fetcher raises one new error of the plain
  class \<^verbatim>\<open>Exception\<close> whose message is \<^verbatim>\<open>Failed to download track: \<close> followed by the
  message of the collaborator's error; the class of that error is not in the message.
  The collaborator's error itself is kept: it is the \<^verbatim>\<open>__context__\<close> of the new error.
\<close>

theorem download_error_is_wrapped:
  assumes "snd (download E (ydl_opts download_path) [''ytsearch1:'' @ query]) = Some e"
  shows "download_and_store_track E download_path video_info query
           = ([Download (ydl_opts download_path) [''ytsearch1:'' @ query]],
              Inl (Exc ''Exception'' (''Failed to download track: '' @ exc_str e) (Some e)))"
  using download_and_store_track_error[OF assms, of video_info]
    download_and_store_track_calls[of E download_path video_info query]
  by (simp add: prod_eq_iff)

theorem download_error_is_wrapped_witness:
  "snd (download failing_download (ydl_opts (Path ''./'')) [''ytsearch1:'' @ ''believer''])
      = Some (Exc ''DownloadError'' ''ERROR: unable to download video data'' None)
   \<and> download_and_store_track failing_download (Path ''./'') believer ''believer''
      = ([Download (ydl_opts (Path ''./'')) [''ytsearch1:believer'']],
         Inl (Exc ''Exception'' ''Failed to download track: ERROR: unable to download video data''
                (Some (Exc ''DownloadError'' ''ERROR: unable to download video data'' None))))"
  using download_error_is_wrapped[of failing_download "Path ''./''" "''believer''"
      "Exc ''DownloadError'' ''ERROR: unable to download video data'' None" believer]
  by (simp add: failing_download_def)

text \<open>
  C6 as the specification words it, that the type and context of the original error are
  discarded, does not hold: the error the fetcher raises for a \<^verbatim>\<open>DownloadError\<close> carries
  that error, with its class, as its context.
\<close>

theorem download_error_context_counterexample:
  "map_sum (\<lambda>x. map_option exc_class (exc_context x)) id
     (snd (download_and_store_track failing_download (Path ''./'') believer ''believer''))
     = Inl (Some ''DownloadError'')
   \<and> map_sum exc_context id
        (snd (download_and_store_track failing_download (Path ''./'') believer ''believer''))
     = Inl (Some (Exc ''DownloadError'' ''ERROR: unable to download video data'' None))"
proof -
  have "snd (download failing_download (ydl_opts (Path ''./'')) [''ytsearch1:'' @ ''believer''])
      = Some (Exc ''DownloadError'' ''ERROR: unable to download video data'' None)"
    by (simp add: failing_download_def)
  from download_and_store_track_error[OF this, of believer] show ?thesis by simp
qed

text \<open>
  C7. For an item that is a dictionary, after a download that reported a finished file
  with a name, the fetcher returns the success text with the title, the uploader and
  the base name of the final file in it. A missing \<^verbatim>\<open>title\<close> key puts \<^verbatim>\<open>Unknown Title\<close>
  in the place of the title, a missing \<^verbatim>\<open>uploader\<close> key puts \<^verbatim>\<open>Unknown Artist\<close> in the
  place of the uploader; a value that is present is formatted as \<^verbatim>\<open>str\<close> formats it, so
  a string appears verbatim.
\<close>

theorem success_message_fields:
  fixes d :: notification
  defines "p \<equiv> Path (filename d)"
  defines "file_name \<equiv>
     (if suffix p = ''.mp3'' \<or> suffix p = ''.mP3'' \<or> suffix p = ''.Mp3'' \<or> suffix p = ''.MP3''
      then name p
      else take (length (name p) - length (suffix p)) (name p) @ ''.mp3'')"
  assumes "download E (ydl_opts download_path) [''ytsearch1:'' @ query] = (ds, None)"
    and "filter (\<lambda>d. status d = ''finished'') ds = d # rest"
    and "name p \<noteq> []"
  shows "snd (download_and_store_track E download_path (PDict m) query)
           = Inr (''Downloaded and playing: '' @ [CHR 0x27]
                  @ (case map_of m ''title'' of
                       None \<Rightarrow> ''Unknown Title'' | Some t \<Rightarrow> py_str (repr E) t)
                  @ [CHR 0x27] @ '' by ''
                  @ (case map_of m ''uploader'' of
                       None \<Rightarrow> ''Unknown Artist'' | Some a \<Rightarrow> py_str (repr E) a)
                  @ [CHR 0x0A] @ ''File saved as: '' @ file_name @ [CHR 0x0A]
                  @ ''Added to music library database.'' @ [CHR 0x0A])
       \<and> (map_of m ''title'' = None \<and> map_of m ''uploader'' = None
            \<longrightarrow> snd (download_and_store_track E download_path (PDict m) query)
                  = Inr (''Downloaded and playing: '' @ [CHR 0x27] @ ''Unknown Title'' @ [CHR 0x27]
                         @ '' by Unknown Artist'' @ [CHR 0x0A]
                         @ ''File saved as: '' @ file_name @ [CHR 0x0A]
                         @ ''Added to music library database.'' @ [CHR 0x0A]))
       \<and> (map_of m ''title'' = Some (PStr title) \<and> map_of m ''uploader'' = Some (PStr artist)
            \<longrightarrow> snd (download_and_store_track E download_path (PDict m) query)
                  = Inr (''Downloaded and playing: '' @ [CHR 0x27] @ title @ [CHR 0x27]
                         @ '' by '' @ artist @ [CHR 0x0A]
                         @ ''File saved as: '' @ file_name @ [CHR 0x0A]
                         @ ''Added to music library database.'' @ [CHR 0x0A]))"
proof -
  have fn: "file_name = final_name (filename d)"
    by (simp add: file_name_def p_def final_name_spellings)
  from assms(3-5) show ?thesis
    unfolding fn p_def by (simp add: download_and_store_track_dict success_msg_def)
qed

theorem success_message_fields_witness:
  "download fixture (ydl_opts (Path ''./'')) [''ytsearch1:'' @ ''believer'']
      = ([\<lparr>status = ''downloading'', filename = ''Believer/Believer.webm''\<rparr>,
          \<lparr>status = ''finished'', filename = ''Believer/Believer.webm''\<rparr>], None)
   \<and> filter (\<lambda>d. status d = ''finished'')
        [\<lparr>status = ''downloading'', filename = ''Believer/Believer.webm''\<rparr>,
         \<lparr>status = ''finished'', filename = ''Believer/Believer.webm''\<rparr>]
      = [\<lparr>status = ''finished'', filename = ''Believer/Believer.webm''\<rparr>]
   \<and> name (Path ''Believer/Believer.webm'') \<noteq> []
   \<and> map_of [(''id'', PStr ''7wtfhZwyrcc'')] ''title'' = None
   \<and> map_of [(''id'', PStr ''7wtfhZwyrcc'')] ''uploader'' = None
   \<and> snd (download_and_store_track fixture (Path ''./'') (PDict [(''id'', PStr ''7wtfhZwyrcc'')])
          ''believer'')
      = Inr (''Downloaded and playing: '' @ [CHR 0x27] @ ''Unknown Title'' @ [CHR 0x27]
             @ '' by Unknown Artist'' @ [CHR 0x0A] @ ''File saved as: Believer.mp3'' @ [CHR 0x0A]
             @ ''Added to music library database.'' @ [CHR 0x0A])
   \<and> snd (download_and_store_track fixture (Path ''./'') believer ''believer'')
      = Inr (''Downloaded and playing: '' @ [CHR 0x27] @ ''Believer'' @ [CHR 0x27]
             @ '' by Imagine Dragons'' @ [CHR 0x0A] @ ''File saved as: Believer.mp3'' @ [CHR 0x0A]
             @ ''Added to music library database.'' @ [CHR 0x0A])"
  using success_message_fields[of fixture "Path ''./''" "''believer''"
      "[\<lparr>status = ''downloading'', filename = ''Believer/Believer.webm''\<rparr>,
        \<lparr>status = ''finished'', filename = ''Believer/Believer.webm''\<rparr>]"
      "\<lparr>status = ''finished'', filename = ''Believer/Believer.webm''\<rparr>" "[]"
      "[(''id'', PStr ''7wtfhZwyrcc'')]"]
    success_message_fields[of fixture "Path ''./''" "''believer''"
      "[\<lparr>status = ''downloading'', filename = ''Believer/Believer.webm''\<rparr>,
        \<lparr>status = ''finished'', filename = ''Believer/Believer.webm''\<rparr>]"
      "\<lparr>status = ''finished'', filename = ''Believer/Believer.webm''\<rparr>" "[]"
      "[(''id'', PStr ''7wtfhZwyrcc''), (''title'', PStr ''Believer''),
        (''uploader'', PStr ''Imagine Dragons'')]"
      "''Believer''" "''Imagine Dragons''"]
  by (simp add: fixture_def believer_def fixture_file)




text \<open>
  C9. For a fixed query, any two resolved items lead to the same request to the download
  collaborator, the first-result search \<^verbatim>\<open>ytsearch1:<query>\<close> built from the query
  alone. The item is read only for its title and uploader: if two items agree on what
  the two lookups give, the fetcher's calls and result are the same.
\<close>

theorem fetch_independent_of_item:
  "fst (download_and_store_track E download_path item1 query)
     = [Download (ydl_opts download_path) [''ytsearch1:'' @ query]]
   \<and> fst (download_and_store_track E download_path item2 query)
     = [Download (ydl_opts download_path) [''ytsearch1:'' @ query]]
   \<and> (py_get item1 ''title'' (PStr ''Unknown Title'') = py_get item2 ''title'' (PStr ''Unknown Title'')
      \<and> py_get item1 ''uploader'' (PStr ''Unknown Artist'')
          = py_get item2 ''uploader'' (PStr ''Unknown Artist'')
      \<longrightarrow> download_and_store_track E download_path item1 query
          = download_and_store_track E download_path item2 query)"
proof (intro conjI impI)
  assume "py_get item1 ''title'' (PStr ''Unknown Title'') = py_get item2 ''title'' (PStr ''Unknown Title'')
      \<and> py_get item1 ''uploader'' (PStr ''Unknown Artist'')
          = py_get item2 ''uploader'' (PStr ''Unknown Artist'')"
  then have t: "py_get item1 ''title'' (PStr ''Unknown Title'')
        = py_get item2 ''title'' (PStr ''Unknown Title'')"
    and u: "py_get item1 ''uploader'' (PStr ''Unknown Artist'')
        = py_get item2 ''uploader'' (PStr ''Unknown Artist'')"
    by simp_all
  show "download_and_store_track E download_path item1 query
          = download_and_store_track E download_path item2 query"
    unfolding download_and_store_track_def suppress_output_id prod.case
      download_and_store_track_try_def t u
    by (rule refl)
qed (rule download_and_store_track_calls)+

theorem fetch_independent_of_item_witness:
  "py_get believer ''title'' (PStr ''Unknown Title'')
     = py_get (PDict [(''id'', PStr ''other''), (''uploader'', PStr ''Imagine Dragons''),
                      (''title'', PStr ''Believer'')]) ''title'' (PStr ''Unknown Title'')
   \<and> py_get believer ''uploader'' (PStr ''Unknown Artist'')
     = py_get (PDict [(''id'', PStr ''other''), (''uploader'', PStr ''Imagine Dragons''),
                      (''title'', PStr ''Believer'')]) ''uploader'' (PStr ''Unknown Artist'')
   \<and> download_and_store_track fixture (Path ''./'') believer ''believer''
     = download_and_store_track fixture (Path ''./'')
         (PDict [(''id'', PStr ''other''), (''uploader'', PStr ''Imagine Dragons''),
                 (''title'', PStr ''Believer'')]) ''believer''"
  using fetch_independent_of_item[of fixture "Path ''./''" believer "''believer''"
      "PDict [(''id'', PStr ''other''), (''uploader'', PStr ''Imagine Dragons''),
              (''title'', PStr ''Believer'')]"]
  by (simp add: believer_def)

text \<open>
  C10. If the search succeeds with a non-empty list of entries whose first entry is
  falsy (an empty dictionary, \<^verbatim>\<open>None\<close>, ...), the resolver returns that entry and the
  request handler answers with the no-results message; the search is the only call
  made to the collaborator, so the entry never reaches the fetcher.
\<close>

theorem falsy_first_entry_is_not_found:
  assumes "extract_info E (info_opts download_path) (''ytsearch1:'' @ query) = Inr (PDict d)"
    and "map_of d ''entries'' = Some (PList (entry # entries))"
    and "\<not> truthy entry"
  shows "get_youtube_info E download_path query
           = ([ExtractInfo (info_opts download_path) (''ytsearch1:'' @ query)], Inr entry)
       \<and> download_and_play E download_path query
           = ([ExtractInfo (info_opts download_path) (''ytsearch1:'' @ query)],
              Inr ''No search results found on YouTube for your query.'')"
proof -
  from assms(1,2) have "snd (get_youtube_info E download_path query) = Inr entry"
    by (simp add: get_youtube_info_value)
  with assms(3) show ?thesis
    using get_youtube_info_calls[of E download_path query]
    by (simp add: download_and_play_not_found prod_eq_iff)
qed

theorem falsy_first_entry_is_not_found_witness:
  "extract_info falsy_entry_search (info_opts (Path ''./'')) (''ytsearch1:'' @ ''believer'')
      = Inr (PDict [(''entries'', PList [PDict []])])
   \<and> map_of [(''entries'', PList [PDict []])] ''entries'' = Some (PList [PDict []])
   \<and> \<not> truthy (PDict [])
   \<and> download_and_play falsy_entry_search (Path ''./'') ''believer''
      = ([ExtractInfo (info_opts (Path ''./'')) ''ytsearch1:believer''],
         Inr ''No search results found on YouTube for your query.'')"
  using falsy_first_entry_is_not_found[of falsy_entry_search "Path ''./''" "''believer''"
      "[(''entries'', PList [PDict []])]" "PDict []" "[]"]
  by (simp add: falsy_entry_search_def)

end
